theory Spec2Isabelle
  imports Main "HOL-Library.Word"
begin

section \<open>Error values\<close>

text \<open>
  Go's \<open>error\<close> interface values that the client can produce, as one datatype.
  \<^item> \<open>ErrorString\<close>: a value made by \<open>errors.New\<close> (the two sentinels of strconv).
  \<^item> \<open>EntitiesError\<close>: \<open>entities.Error\<close>, a string type.
  \<^item> \<open>NumError f n e\<close>: \<open>*strconv.NumError{Func: f, Num: n, Err: e}\<close>.
  \<^item> \<open>WrapError p e\<close>: the value of \<open>fmt.Errorf(p + "%w", e)\<close>; its text is \<open>p\<close>
    followed by the text of \<open>e\<close>, and \<open>Unwrap\<close> gives \<open>e\<close>.
  \<^item> \<open>GeneralError\<close>, \<open>RequestError\<close>, \<open>ParseError\<close>: the three structs of the client package.
  \<^item> \<open>ExternalError\<close>: an error of net/http or encoding/json, opaque here.
  A nil error is \<open>None\<close> of \<open>error option\<close>.
\<close>

datatype error =
    ErrorString string
  | EntitiesError string
  | NumError string string error
  | WrapError string error
  | GeneralError string
  | RequestError int string
  | ParseError string string
  | ExternalError string

definition ErrSyntax :: error where
  "ErrSyntax = ErrorString ''invalid syntax''"

definition ErrRange :: error where
  "ErrRange = ErrorString ''value out of range''"

definition ErrWrongProxyType :: error where
  "ErrWrongProxyType = EntitiesError ''wrong proxy type''"

definition newGeneralError :: "string \<Rightarrow> error" where
  "newGeneralError msg = GeneralError msg"

definition newParseError :: "string \<Rightarrow> string \<Rightarrow> error" where
  "newParseError name reason = ParseError name reason"

text \<open>\<open>errors.Is\<close>: the chain of \<open>Unwrap\<close> is searched for a value equal to the target.\<close>

fun errors_Is :: "error \<Rightarrow> error \<Rightarrow> bool" where
  "errors_Is (WrapError p e) target = (WrapError p e = target \<or> errors_Is e target)"
| "errors_Is (NumError f n e) target = (NumError f n e = target \<or> errors_Is e target)"
| "errors_Is e target = (e = target)"

text \<open>
  \<open>errors.As\<close> with a target of type \<open>RequestError\<close>, respectively \<open>GeneralError\<close>: the
  first value of that type on the chain of \<open>Unwrap\<close>, if any.
\<close>

fun errors_As_RequestError :: "error \<Rightarrow> (int \<times> string) option" where
  "errors_As_RequestError (RequestError code msg) = Some (code, msg)"
| "errors_As_RequestError (WrapError p e) = errors_As_RequestError e"
| "errors_As_RequestError (NumError f n e) = errors_As_RequestError e"
| "errors_As_RequestError e = None"

fun errors_As_GeneralError :: "error \<Rightarrow> string option" where
  "errors_As_GeneralError (GeneralError msg) = Some msg"
| "errors_As_GeneralError (WrapError p e) = errors_As_GeneralError e"
| "errors_As_GeneralError (NumError f n e) = errors_As_GeneralError e"
| "errors_As_GeneralError e = None"

definition GetCode :: "error option \<Rightarrow> int" where
  "GetCode err =
     (case err of
        None \<Rightarrow> - 1
      | Some e \<Rightarrow> (case errors_As_RequestError e of Some (code, msg) \<Rightarrow> code | None \<Rightarrow> - 1))"

definition GetMessage :: "error option \<Rightarrow> string" where
  "GetMessage err =
     (case err of
        None \<Rightarrow> []
      | Some e \<Rightarrow>
          (case errors_As_RequestError e of
             Some (code, msg) \<Rightarrow> msg
           | None \<Rightarrow> (case errors_As_GeneralError e of Some msg \<Rightarrow> msg | None \<Rightarrow> [])))"

subsection \<open>Decimal rendering\<close>

text \<open>
  \<open>strconv.Itoa\<close>: the decimal digits of the number, most significant first, after a
  minus sign when it is negative.
\<close>

definition digitChar :: "nat \<Rightarrow> char" where
  "digitChar d = char_of (48 + d)"

function formatDecimal :: "nat \<Rightarrow> string" where
  "formatDecimal n = (if n < 10 then [digitChar n] else formatDecimal (n div 10) @ [digitChar (n mod 10)])"
  by pat_completeness auto
termination
  by (relation "measure id") auto

definition Itoa :: "int \<Rightarrow> string" where
  "Itoa i = (if i < 0 then CHR ''-'' # formatDecimal (nat (- i)) else formatDecimal (nat i))"

subsection \<open>The text of the client's errors\<close>

definition GeneralError_Error :: "string \<Rightarrow> string" where
  "GeneralError_Error msg = msg"

definition RequestError_Error :: "int \<Rightarrow> string \<Rightarrow> string" where
  "RequestError_Error code msg =
     (let c = Itoa code in
      if msg = [] then ''unexpected code '' @ c
      else ''unexpected code '' @ c @ '': '' @ msg)"

definition ParseError_Error :: "string \<Rightarrow> string \<Rightarrow> string" where
  "ParseError_Error name reason = ''parsing '' @ name @ '': '' @ reason"

section \<open>Package entities\<close>

datatype ProxyType = ProxyTypeUnknown | ProxyTypeHTTP | ProxyTypeSocks

definition ParseProxyType :: "string \<Rightarrow> ProxyType \<times> error option" where
  "ParseProxyType v =
     (if v = ''http'' then (ProxyTypeHTTP, None)
      else if v = ''socks'' then (ProxyTypeSocks, None)
      else (ProxyTypeUnknown, Some (WrapError (''type '' @ v @ '': '') ErrWrongProxyType)))"

subsection \<open>Sensitive\<close>

text \<open>
  \<open>Sensitive[T]\<close> holds a value and the flag \<open>allow\<close>. \<open>MarshalText\<close> has a value
  receiver and changes nothing; \<open>Allow\<close> has a pointer receiver and sets the flag.
  \<open>fmt.Sprintf("%v", v)\<close> depends on the type \<open>T\<close>, so the rendering of a value is the
  parameter \<open>sprint\<close> (for \<open>T = string\<close> it is the string itself).
\<close>

record 'a Sensitive =
  sensitive_value :: 'a
  sensitive_allow :: bool

definition NewSensitive :: "'a \<Rightarrow> 'a Sensitive" where
  "NewSensitive v = \<lparr>sensitive_value = v, sensitive_allow = False\<rparr>"

definition Sensitive_MarshalText :: "('a \<Rightarrow> string) \<Rightarrow> 'a Sensitive \<Rightarrow> string \<times> error option" where
  "Sensitive_MarshalText sprint s =
     (if sensitive_allow s then (sprint (sensitive_value s), None) else (''***'', None))"

definition Allow :: "'a Sensitive \<Rightarrow> 'a Sensitive" where
  "Allow s = s\<lparr>sensitive_allow := True\<rparr>"

text \<open>
  The methods of the type, as the calls a program can make on one wrapper, and the
  wrapper after a sequence of calls.
\<close>

datatype Sensitive_call = CallMarshalText | CallAllow

fun Sensitive_after :: "'a Sensitive \<Rightarrow> Sensitive_call list \<Rightarrow> 'a Sensitive" where
  "Sensitive_after s [] = s"
| "Sensitive_after s (CallMarshalText # calls) = Sensitive_after s calls"
| "Sensitive_after s (CallAllow # calls) = Sensitive_after (Allow s) calls"

section \<open>Library functions the client calls\<close>

text \<open>
  A Go string is a sequence of bytes; \<open>string\<close> is a list of 8-bit characters, and
  \<open>of_char\<close> gives the value of a byte.
\<close>

definition isASCII :: "char \<Rightarrow> bool" where
  "isASCII c = ((of_char c :: nat) < 128)"

definition isUpper :: "char \<Rightarrow> bool" where
  "isUpper c = (65 \<le> (of_char c :: nat) \<and> (of_char c :: nat) \<le> 90)"

definition isLower :: "char \<Rightarrow> bool" where
  "isLower c = (97 \<le> (of_char c :: nat) \<and> (of_char c :: nat) \<le> 122)"

definition isDigit :: "char \<Rightarrow> bool" where
  "isDigit c = (48 \<le> (of_char c :: nat) \<and> (of_char c :: nat) \<le> 57)"

definition lowerByte :: "char \<Rightarrow> char" where
  "lowerByte c = char_of ((of_char c :: nat) + 32)"

definition upperByte :: "char \<Rightarrow> char" where
  "upperByte c = char_of ((of_char c :: nat) - 32)"

text \<open>
  The UTF-8 encodings of the three runes outside ASCII that Unicode's simple case
  mappings tie to an ASCII letter: U+0130 (capital I with dot above, whose lower case
  is \<open>i\<close>), U+212A (the Kelvin sign, whose lower case is \<open>k\<close>) and U+017F (the long s,
  which folds with \<open>s\<close>).
\<close>

definition runeDottedI :: string where
  "runeDottedI = [CHR 0xC4, CHR 0xB0]"

definition runeKelvin :: string where
  "runeKelvin = [CHR 0xE2, CHR 0x84, CHR 0xAA]"

definition runeLongS :: string where
  "runeLongS = [CHR 0xC5, CHR 0xBF]"

subsection \<open>strings.ToLower\<close>

text \<open>
  \<open>strings.ToLower\<close> maps every rune of the string through \<open>unicode.ToLower\<close>: an
  upper-case ASCII letter becomes its lower-case letter, any other ASCII byte stays, and
  of the runes outside ASCII exactly U+0130 and U+212A become an ASCII letter. Every
  other rune outside ASCII (an invalid byte included, which becomes U+FFFD) is
  written back as bytes outside ASCII; the Unicode tables that say which bytes are not
  part of this development, and the function below keeps such bytes as they are. Its
  result therefore equals a string of ASCII characters exactly when that of
  \<open>strings.ToLower\<close> does, and is the same on every string of ASCII characters.
\<close>

fun ToLower :: "string \<Rightarrow> string" where
  "ToLower [] = []"
| "ToLower (c # cs) =
     (if isUpper c then lowerByte c # ToLower cs
      else if take 2 (c # cs) = runeDottedI then CHR ''i'' # ToLower (drop 1 cs)
      else if take 3 (c # cs) = runeKelvin then CHR ''k'' # ToLower (drop 2 cs)
      else c # ToLower cs)"

subsection \<open>strings.EqualFold\<close>

text \<open>
  The comparison of two ASCII bytes: equal, or an upper-case letter and its lower case.
\<close>

definition eqFoldByte :: "char \<Rightarrow> char \<Rightarrow> bool" where
  "eqFoldByte sr tr =
     (if tr = sr then True
      else let lo = (if (of_char tr :: nat) < of_char sr then tr else sr);
               hi = (if (of_char tr :: nat) < of_char sr then sr else tr)
           in isUpper lo \<and> (of_char hi :: nat) = of_char lo + 32)"

text \<open>
  The length of the rune at the head of \<open>s\<close> when it folds with the ASCII byte \<open>a\<close>, and
  0 when the rune at the head does not: the fold orbits of \<open>unicode.SimpleFold\<close> that hold
  an ASCII character and a rune outside ASCII are K, k, U+212A and S, s, U+017F.
\<close>

definition foldRuneLen :: "char \<Rightarrow> string \<Rightarrow> nat" where
  "foldRuneLen a s =
     (if (a = CHR ''k'' \<or> a = CHR ''K'') \<and> take 3 s = runeKelvin then 3
      else if (a = CHR ''s'' \<or> a = CHR ''S'') \<and> take 2 s = runeLongS then 2
      else 0)"

text \<open>
  The loop after the label \<open>hasUnicode\<close>, which compares rune by rune. It is as in Go
  whenever one of the two strings has ASCII characters only, which is how the client
  calls it. The fold orbits of two runes outside ASCII are not part of this development:
  two such runes are compared byte by byte.
\<close>

fun EqualFold_hasUnicode :: "string \<Rightarrow> string \<Rightarrow> bool" where
  "EqualFold_hasUnicode [] t = (t = [])"
| "EqualFold_hasUnicode (c # cs) [] = False"
| "EqualFold_hasUnicode (c # cs) (d # ds) =
     (if isASCII c \<and> isASCII d then
        (if eqFoldByte c d then EqualFold_hasUnicode cs ds else False)
      else if isASCII d then
        (if foldRuneLen d (c # cs) = 0 then False
         else EqualFold_hasUnicode (drop (foldRuneLen d (c # cs) - 1) cs) ds)
      else if isASCII c then
        (if foldRuneLen c (d # ds) = 0 then False
         else EqualFold_hasUnicode cs (drop (foldRuneLen c (d # ds) - 1) ds))
      else (if c = d then EqualFold_hasUnicode cs ds else False))"

text \<open>The ASCII fast path, which leaves for \<open>hasUnicode\<close> at the first byte outside ASCII.\<close>

fun EqualFold :: "string \<Rightarrow> string \<Rightarrow> bool" where
  "EqualFold [] t = (t = [])"
| "EqualFold (c # cs) [] = False"
| "EqualFold (c # cs) (d # ds) =
     (if \<not> (isASCII c \<and> isASCII d) then EqualFold_hasUnicode (c # cs) (d # ds)
      else if eqFoldByte c d then EqualFold cs ds
      else False)"

subsection \<open>strconv.Atoi\<close>

text \<open>
  \<open>strconv.Atoi\<close> where \<open>int\<close> has 64 bits: an optional sign and decimal digits. A string
  of fewer than 19 bytes takes the fast path; any other goes through \<open>ParseInt(s, 10, 0)\<close>
  and \<open>ParseUint\<close>, whose accumulator is a \<open>uint64\<close>. The error is a \<open>NumError\<close> that holds
  the whole input and one of the sentinels \<open>ErrSyntax\<close> and \<open>ErrRange\<close>.
\<close>

definition digitVal :: "char \<Rightarrow> nat" where
  "digitVal c = of_char c - 48"

fun Atoi_fast :: "string \<Rightarrow> int \<Rightarrow> int option" where
  "Atoi_fast [] n = Some n"
| "Atoi_fast (ch # s) n =
     (if isDigit ch then Atoi_fast s (n * 10 + int (digitVal ch)) else None)"

definition maxUint64 :: nat where
  "maxUint64 = 2 ^ 64 - 1"

fun ParseUint_loop :: "string \<Rightarrow> nat \<Rightarrow> nat \<times> error option" where
  "ParseUint_loop [] n = (n, None)"
| "ParseUint_loop (c # s) n =
     (if \<not> isDigit c then (0, Some ErrSyntax)
      else if n \<ge> maxUint64 div 10 + 1 then (maxUint64, Some ErrRange)
      else
        (let n10 = n * 10; n1 = (n10 + digitVal c) mod 2 ^ 64
         in if n1 < n10 \<or> n1 > maxUint64 then (maxUint64, Some ErrRange)
            else ParseUint_loop s n1))"

definition ParseUint :: "string \<Rightarrow> nat \<times> error option" where
  "ParseUint s = (if s = [] then (0, Some ErrSyntax) else ParseUint_loop s 0)"

definition ParseInt :: "string \<Rightarrow> int \<times> error option" where
  "ParseInt s =
     (if s = [] then (0, Some ErrSyntax)
      else
        (let neg = (hd s = CHR ''-'');
             s1 = (if hd s = CHR ''+'' \<or> hd s = CHR ''-'' then tl s else s);
             un = fst (ParseUint s1);
             err = snd (ParseUint s1)
         in if err \<noteq> None \<and> err \<noteq> Some ErrRange then (0, err)
            else if \<not> neg \<and> un \<ge> 2 ^ 63 then (2 ^ 63 - 1, Some ErrRange)
            else if neg \<and> un > 2 ^ 63 then (- (2 ^ 63), Some ErrRange)
            else (if neg then - int un else int un, None)))"

definition Atoi :: "string \<Rightarrow> int \<times> error option" where
  "Atoi s =
     (if 0 < length s \<and> length s < 19 then
        (let signed = (hd s = CHR ''-'' \<or> hd s = CHR ''+'');
             s1 = (if signed then tl s else s)
         in if signed \<and> length s1 < 1 then (0, Some (NumError ''Atoi'' s ErrSyntax))
            else
              (case Atoi_fast s1 0 of
                 None \<Rightarrow> (0, Some (NumError ''Atoi'' s ErrSyntax))
               | Some n \<Rightarrow> (if hd s = CHR ''-'' then - n else n, None)))
      else
        (case ParseInt s of
           (i, None) \<Rightarrow> (i, None)
         | (i, Some e) \<Rightarrow> (i, Some (NumError ''Atoi'' s e))))"

subsection \<open>time.Unix\<close>

text \<open>
  An instant, as the seconds and nanoseconds since the UNIX epoch; \<open>time.Unix\<close> brings
  the nanoseconds into the range from 0 to 999999999.
\<close>

datatype Time = Time int int

definition Unix :: "int \<Rightarrow> int \<Rightarrow> Time" where
  "Unix sec nsec = Time (sec + nsec div 1000000000) (nsec mod 1000000000)"

definition epoch :: Time where
  "epoch = Time 0 0"

section \<open>Package entities: the proxy\<close>

record Proxy =
  ID :: string
  Host :: string
  Port :: "16 word"
  User :: string
  Password :: "string Sensitive"
  Type :: ProxyType
  Country :: string
  Date :: Time
  ExpireDate :: Time
  Description :: string
  Active :: bool

section \<open>Package client\<close>

subsection \<open>The state filter\<close>

datatype ProxyState =
  ProxyStateUnknown | ProxyStateActive | ProxyStateExpired | ProxyStateExpiring | ProxyStateAll

definition ProxyState_String :: "ProxyState \<Rightarrow> string" where
  "ProxyState_String s =
     (case s of
        ProxyStateAll \<Rightarrow> ''all''
      | ProxyStateExpiring \<Rightarrow> ''expiring''
      | ProxyStateExpired \<Rightarrow> ''expired''
      | ProxyStateActive \<Rightarrow> ''active''
      | ProxyStateUnknown \<Rightarrow> [])"

definition ParseProxyState :: "string \<Rightarrow> ProxyState \<times> error option" where
  "ParseProxyState v =
     (let l = ToLower v in
      if l = ProxyState_String ProxyStateAll then (ProxyStateAll, None)
      else if l = ProxyState_String ProxyStateExpiring then (ProxyStateExpiring, None)
      else if l = ProxyState_String ProxyStateExpired then (ProxyStateExpired, None)
      else if l = ProxyState_String ProxyStateActive then (ProxyStateActive, None)
      else (ProxyStateUnknown, Some (newParseError ''state'' (''unsupported value '' @ v))))"

subsection \<open>The provider's records\<close>

record proxy =
  proxy_ID :: string
  proxy_Host :: string
  proxy_Port :: string
  proxy_User :: string
  proxy_Pass :: string
  proxy_Type :: string
  proxy_Country :: string
  proxy_Date :: string
  proxy_DateEnd :: string
  proxy_Unixtime :: int
  proxy_UnixtimeEnd :: int
  proxy_Descr :: string
  proxy_Active :: string

record baseResponse =
  Status :: string
  ErrorID :: int
  Error :: string

definition isError :: "'a baseResponse_scheme \<Rightarrow> bool" where
  "isError b = (Status b = ''no'' \<or> ErrorID b > 0 \<or> Error b \<noteq> [])"

record proxyResponse = baseResponse +
  ListCount :: int
  List :: "proxy list"

text \<open>The zero value of \<open>proxyResponse\<close>, which a named result starts from.\<close>

definition proxyResponse_zero :: proxyResponse where
  "proxyResponse_zero = \<lparr>Status = [], ErrorID = 0, Error = [], ListCount = 0, List = []\<rparr>"

subsection \<open>Mapping a record\<close>

text \<open>
  \<open>Inl e\<close> is the result \<open>(entities.Proxy{}, e)\<close>, \<open>Inr p\<close> is \<open>(p, nil)\<close>. The conversion
  \<open>uint16(port)\<close> keeps the low 16 bits of the number, which is \<open>word_of_int\<close>.
\<close>

definition mapProxyToEntity :: "proxy \<Rightarrow> error + Proxy" where
  "mapProxyToEntity p =
     (case Atoi (proxy_Port p) of
        (port, Some err) \<Rightarrow> Inl (WrapError ''parsing port: '' err)
      | (port, None) \<Rightarrow>
          (case ParseProxyType (proxy_Type p) of
             (proxyType, Some err) \<Rightarrow> Inl (WrapError ''parsing proxy type: '' err)
           | (proxyType, None) \<Rightarrow>
               Inr \<lparr>ID = proxy_ID p,
                    Host = proxy_Host p,
                    Port = word_of_int port,
                    User = proxy_User p,
                    Password = NewSensitive (proxy_Pass p),
                    Type = proxyType,
                    Country = proxy_Country p,
                    Date = Unix (proxy_Unixtime p) 0,
                    ExpireDate = Unix (proxy_UnixtimeEnd p) 0,
                    Description = proxy_Descr p,
                    Active = EqualFold (proxy_Active p) ''1''\<rparr>))"

subsection \<open>Mapping the list\<close>

text \<open>
  A Go function either panics or returns. A result \<open>([]entities.Proxy, error)\<close> is a
  pair, in which \<open>None\<close> is the nil slice, respectively the nil error.
\<close>

datatype 'a outcome = Panic string | Return 'a

fun mapProxyResponse_loop :: "proxy list \<Rightarrow> Proxy list \<Rightarrow> Proxy list option \<times> error option" where
  "mapProxyResponse_loop [] proxies = (Some proxies, None)"
| "mapProxyResponse_loop (item # items) proxies =
     (case mapProxyToEntity item of
        Inl err \<Rightarrow> (None, Some err)
      | Inr p \<Rightarrow> mapProxyResponse_loop items (proxies @ [p]))"

text \<open>
  \<open>make([]entities.Proxy, 0, response.ListCount)\<close> panics when the capacity is negative
  or more than the runtime can allocate; \<open>maxCap\<close> is the largest capacity it grants, which
  depends on the platform.
\<close>

definition mapProxyResponse ::
  "int \<Rightarrow> proxyResponse \<Rightarrow> (Proxy list option \<times> error option) outcome" where
  "mapProxyResponse maxCap response =
     (if ListCount response < 0 \<or> maxCap < ListCount response
      then Panic ''makeslice: cap out of range''
      else Return (mapProxyResponse_loop (List response) []))"

subsection \<open>The request\<close>

text \<open>
  What the client reaches outside the repository is a parameter of the model:
  \<^item> \<open>hclient\<close>, a field of the client: what \<open>(*http.Client).Do\<close> answers to a request, an
    error or a response with its status code and the bytes \<open>ioutil.ReadAll\<close> read;
  \<^item> \<open>NewRequestWithContext\<close>: the error of \<open>http.NewRequestWithContext\<close> for a method and
    a URL, if any;
  \<^item> \<open>Unmarshal\<close>: \<open>json.Unmarshal\<close>, which fills the destination from the body and may
    fail after filling a part of it;
  \<^item> \<open>maxCap\<close>, as above.
  The query is kept as the pairs \<open>url.Values.Encode\<close> writes, in its order (by key).
  The calls of the logger change no result and are left out.
\<close>

record request =
  Method :: string
  URL :: string
  Query :: "(string \<times> string) list"

record response =
  StatusCode :: int
  Body :: string

record httpClient =
  addr :: string
  key :: string
  hclient :: "request \<Rightarrow> error + response"

record library =
  NewRequestWithContext :: "string \<Rightarrow> string \<Rightarrow> error option"
  Unmarshal :: "string \<Rightarrow> proxyResponse \<Rightarrow> proxyResponse \<times> error option"
  maxCap :: int

record ListProxyParams =
  Descr :: string
  State :: ProxyState

text \<open>
  \<open>doRequest\<close> writes through the pointer \<open>dst\<close>: it takes the destination and returns
  it with the error.
\<close>

definition doRequest ::
  "library \<Rightarrow> (request \<Rightarrow> error + response) \<Rightarrow> request \<Rightarrow> proxyResponse \<Rightarrow>
     proxyResponse \<times> error option" where
  "doRequest lib c req dst =
     (case c req of
        Inl err \<Rightarrow> (dst, Some (WrapError ''doing request: '' err))
      | Inr resp \<Rightarrow>
          if StatusCode resp \<ge> 400 then (dst, Some (RequestError (StatusCode resp) (Body resp)))
          else
            (case Unmarshal lib (Body resp) dst of
               (dst', Some err) \<Rightarrow> (dst', Some (WrapError ''decoding json: '' err))
             | (dst', None) \<Rightarrow> (dst', None)))"

definition loadAllProxies ::
  "library \<Rightarrow> httpClient \<Rightarrow> ProxyState \<Rightarrow> string \<Rightarrow> proxyResponse \<times> error option" where
  "loadAllProxies lib c state desc =
     (let reqURL = addr c @ ''/api/'' @ key c @ ''/getproxy''
      in case NewRequestWithContext lib ''GET'' reqURL of
           Some err \<Rightarrow> (proxyResponse_zero, Some (WrapError ''making request: '' err))
         | None \<Rightarrow>
             (let req = \<lparr>Method = ''GET'', URL = reqURL,
                         Query = [(''descr'', desc), (''nokey'', []),
                                  (''state'', ProxyState_String state)]\<rparr>
              in case doRequest lib (hclient c) req proxyResponse_zero of
                   (response, Some err) \<Rightarrow> (response, Some err)
                 | (response, None) \<Rightarrow>
                     if isError response
                     then (response, Some (RequestError (ErrorID response) (Error response)))
                     else (response, None)))"

definition ListProxies ::
  "library \<Rightarrow> httpClient \<Rightarrow> ListProxyParams \<Rightarrow> (Proxy list option \<times> error option) outcome" where
  "ListProxies lib c params =
     (case loadAllProxies lib c (State params) (Descr params) of
        (resp, Some err) \<Rightarrow> Return (None, Some err)
      | (resp, None) \<Rightarrow>
          (case mapProxyResponse (maxCap lib) resp of
             Panic msg \<Rightarrow> Panic msg
           | Return (proxies, Some err) \<Rightarrow> Return (None, Some err)
           | Return (proxies, None) \<Rightarrow> Return (proxies, None)))"

subsection \<open>Case variants\<close>

text \<open>
  What "a case variant of a word" means for a word of lower-case ASCII letters: the
  string is the word with each letter written in one of its case forms, which are the
  letter, its upper-case letter and, for \<open>i\<close> and \<open>k\<close>, the one rune outside ASCII whose
  lower case the letter is. This is stated on the word, without \<open>ToLower\<close>.
\<close>

definition caseForms :: "char \<Rightarrow> string list" where
  "caseForms d =
     [[d], [upperByte d]] @
     (if d = CHR ''i'' then [runeDottedI] else []) @
     (if d = CHR ''k'' then [runeKelvin] else [])"

fun caseVariant :: "string \<Rightarrow> string \<Rightarrow> bool" where
  "caseVariant s [] = (s = [])"
| "caseVariant s (d # w) =
     (\<exists>f \<in> set (caseForms d). take (length f) s = f \<and> caseVariant (drop (length f) s) w)"

section \<open>Example values\<close>

text \<open>A record of the provider with a given port, type and active string.\<close>

definition exampleProxy :: "string \<Rightarrow> string \<Rightarrow> string \<Rightarrow> proxy" where
  "exampleProxy port type active =
     \<lparr>proxy_ID = ''1'', proxy_Host = ''203.0.113.7'', proxy_Port = port, proxy_User = ''user'',
      proxy_Pass = ''pass'', proxy_Type = type, proxy_Country = ''ru'',
      proxy_Date = ''1970-01-01 00:00:00'', proxy_DateEnd = ''1970-01-01 00:00:00'',
      proxy_Unixtime = 0, proxy_UnixtimeEnd = 0, proxy_Descr = [], proxy_Active = active\<rparr>"

text \<open>
  A client whose transport answers every request with the given response, a library whose
  decoder yields the given envelope, and the parameters of a call.
\<close>

definition exampleClient :: "response \<Rightarrow> httpClient" where
  "exampleClient resp = \<lparr>addr = ''https://proxy6.net'', key = ''secret'', hclient = (\<lambda>req. Inr resp)\<rparr>"

definition exampleLibrary :: "proxyResponse \<Rightarrow> library" where
  "exampleLibrary envelope =
     \<lparr>NewRequestWithContext = (\<lambda>method url. None),
      Unmarshal = (\<lambda>body dst. (envelope, None)),
      maxCap = 1000000\<rparr>"

definition exampleParams :: ListProxyParams where
  "exampleParams = \<lparr>Descr = [], State = ProxyStateActive\<rparr>"

definition exampleEnvelope :: "string \<Rightarrow> int \<Rightarrow> proxy list \<Rightarrow> proxyResponse" where
  "exampleEnvelope status count items =
     \<lparr>Status = status, ErrorID = 0, Error = [], ListCount = count, List = items\<rparr>"

section \<open>Properties\<close>

subsection \<open>Sensitive\<close>

lemma Sensitive_after_value:
  "sensitive_value (Sensitive_after s calls) = sensitive_value s"
proof (induction calls arbitrary: s)
  case Nil
  show ?case by simp
next
  case (Cons c calls)
  show ?case by (cases c) (simp_all add: Cons.IH Allow_def)
qed

lemma Sensitive_after_allow:
  "sensitive_allow (Sensitive_after s calls) = (sensitive_allow s \<or> CallAllow \<in> set calls)"
proof (induction calls arbitrary: s)
  case Nil
  show ?case by simp
next
  case (Cons c calls)
  show ?case by (cases c) (auto simp: Cons.IH Allow_def)
qed

text \<open>
  C7. A wrapper whose flag is not set (as \<open>NewSensitive\<close> makes it) marshals to the
  mask \<open>***\<close> as long as \<open>Allow\<close> has not been called on it, and to the rendering of
  the wrapped value once \<open>Allow\<close> has been called, whatever calls came before or after:
  no call of the type's methods clears the flag.
\<close>

theorem Sensitive_MarshalText_latch:
  "Sensitive_MarshalText sprint (Sensitive_after s calls) =
     (if sensitive_allow s \<or> CallAllow \<in> set calls then (sprint (sensitive_value s), None)
      else (''***'', None))"
  by (simp add: Sensitive_MarshalText_def Sensitive_after_allow Sensitive_after_value)

theorem Sensitive_MarshalText_latch_witness:
  "Sensitive_MarshalText (\<lambda>s. s) (NewSensitive ''secret'') = (''***'', None) \<and>
   Sensitive_MarshalText (\<lambda>s. s) (Allow (NewSensitive ''secret'')) = (''secret'', None) \<and>
   Sensitive_MarshalText (\<lambda>s. s)
     (Sensitive_after (NewSensitive ''secret'') [CallMarshalText, CallAllow, CallMarshalText]) =
     (''secret'', None)"
  using Sensitive_MarshalText_latch [of "\<lambda>s. s" "NewSensitive ''secret''" "[]"]
    Sensitive_MarshalText_latch [of "\<lambda>s. s" "NewSensitive ''secret''" "[CallAllow]"]
    Sensitive_MarshalText_latch [of "\<lambda>s. s" "NewSensitive ''secret''"
      "[CallMarshalText, CallAllow, CallMarshalText]"]
  by (simp add: NewSensitive_def)

subsection \<open>Parsing the proxy type\<close>

text \<open>
  C6. \<open>ParseProxyType\<close> succeeds on \<open>http\<close> and on \<open>socks\<close>, with the HTTP and the SOCKS
  value; on any other string, a case variant such as \<open>HTTP\<close> included, it returns the
  unknown type and the sentinel \<open>ErrWrongProxyType\<close> wrapped behind the text \<open>type v: \<close>,
  which \<open>errors.Is\<close> finds. So it succeeds exactly on these two strings.
\<close>

theorem ParseProxyType_exact:
  "ParseProxyType ''http'' = (ProxyTypeHTTP, None) \<and>
   ParseProxyType ''socks'' = (ProxyTypeSocks, None) \<and>
   (v \<noteq> ''http'' \<and> v \<noteq> ''socks'' \<longrightarrow>
      ParseProxyType v =
        (ProxyTypeUnknown, Some (WrapError (''type '' @ v @ '': '') ErrWrongProxyType)) \<and>
      errors_Is (WrapError (''type '' @ v @ '': '') ErrWrongProxyType) ErrWrongProxyType) \<and>
   (snd (ParseProxyType v) = None \<longleftrightarrow> v = ''http'' \<or> v = ''socks'')"
  by (simp add: ParseProxyType_def ErrWrongProxyType_def)

theorem ParseProxyType_exact_witness:
  "ParseProxyType ''HTTP'' =
     (ProxyTypeUnknown, Some (WrapError ''type HTTP: '' ErrWrongProxyType)) \<and>
   errors_Is (WrapError ''type HTTP: '' ErrWrongProxyType) ErrWrongProxyType \<and>
   snd (ParseProxyType ''Socks'') \<noteq> None"
  using ParseProxyType_exact [of "''HTTP''"] ParseProxyType_exact [of "''Socks''"]
  by simp

subsection \<open>The text of a request error\<close>

lemma Atoi_fast_snoc:
  "Atoi_fast (s @ [c]) n =
     (case Atoi_fast s n of
        None \<Rightarrow> None
      | Some m \<Rightarrow> if isDigit c then Some (m * 10 + int (digitVal c)) else None)"
  by (induction s arbitrary: n) simp_all

lemma digitChar_digit:
  "d < 10 \<Longrightarrow> isDigit (digitChar d) \<and> digitVal (digitChar d) = d"
  by (simp add: isDigit_def digitVal_def digitChar_def of_char_of)

text \<open>The digits \<open>formatDecimal\<close> writes are read back as the number by the loop of \<open>Atoi\<close>.\<close>

lemma Atoi_fast_formatDecimal:
  "Atoi_fast (formatDecimal n) 0 = Some (int n)"
proof (induction n rule: formatDecimal.induct)
  case (1 n)
  show ?case
  proof (cases "n < 10")
    case True
    then show ?thesis
      using digitChar_digit [of n] by (simp add: formatDecimal.simps [of n] del: formatDecimal.simps)
  next
    case False
    have d: "isDigit (digitChar (n mod 10))" "digitVal (digitChar (n mod 10)) = n mod 10"
      using digitChar_digit [of "n mod 10"] by simp_all
    have "formatDecimal n = formatDecimal (n div 10) @ [digitChar (n mod 10)]"
      using False by (simp add: formatDecimal.simps [of n] del: formatDecimal.simps)
    moreover have "int (n div 10) * 10 + int (n mod 10) = int n"
      by presburger
    ultimately show ?thesis
      using "1.IH" [OF False] d by (simp add: Atoi_fast_snoc del: formatDecimal.simps)
  qed
qed

text \<open>
  C9. The text of a request error is \<open>unexpected code \<close> and the code, followed by a colon, a
  space and the message when the message is not empty. The code is written in decimal:
  a minus sign when it is negative, then digits that read back as its absolute value.
\<close>

theorem RequestError_Error_text:
  "RequestError_Error code msg =
     (if msg = [] then ''unexpected code '' @ Itoa code
      else ''unexpected code '' @ Itoa code @ '': '' @ msg) \<and>
   Itoa code = (if code < 0 then ''-'' else []) @ formatDecimal (nat \<bar>code\<bar>) \<and>
   Atoi_fast (formatDecimal (nat \<bar>code\<bar>)) 0 = Some \<bar>code\<bar>"
  by (simp add: RequestError_Error_def Itoa_def Atoi_fast_formatDecimal Let_def del: formatDecimal.simps)

theorem RequestError_Error_text_witness:
  "RequestError_Error 404 [] = ''unexpected code 404'' \<and>
   RequestError_Error 100 ''Error key'' = ''unexpected code 100: Error key'' \<and>
   RequestError_Error (- 1) ''x'' = ''unexpected code -1: x''"
  using RequestError_Error_text [of 404 "[]"] RequestError_Error_text [of 100 "''Error key''"]
    RequestError_Error_text [of "- 1" "''x''"]
  by (simp add: Itoa_def digitChar_def char_of_eq_iff)

subsection \<open>Mapping a record\<close>

lemma eqFoldByte_one: "eqFoldByte c CHR ''1'' = (c = CHR ''1'')"
  by (auto simp: eqFoldByte_def isUpper_def Let_def)

lemma EqualFold_Nil_right: "EqualFold s [] = (s = [])"
  by (cases s) simp_all

text \<open>The digit \<open>1\<close> has no case: only the string \<open>1\<close> folds to it.\<close>

lemma EqualFold_one: "EqualFold s ''1'' = (s = ''1'')"
proof (cases s)
  case Nil
  then show ?thesis by simp
next
  case (Cons c cs)
  show ?thesis
  proof (cases "isASCII c")
    case True
    then show ?thesis
      by (simp add: Cons eqFoldByte_one EqualFold_Nil_right isASCII_def)
  next
    case False
    then have "c \<noteq> CHR ''1''"
      by (auto simp: isASCII_def)
    with False show ?thesis
      by (simp add: Cons foldRuneLen_def isASCII_def)
  qed
qed

lemma Atoi_examples:
  "Atoi ''8080'' = (8080, None)"
  "Atoi ''-1'' = (- 1, None)"
  "Atoi ''65536'' = (65536, None)"
  "Atoi ''70000'' = (70000, None)"
  "Atoi ''abc'' = (0, Some (NumError ''Atoi'' ''abc'' ErrSyntax))"
  by (simp_all add: Atoi_def isDigit_def digitVal_def)

lemma mapProxyToEntity_ok:
  assumes "Atoi (proxy_Port p) = (n, None)"
    and "proxy_Type p = ''http'' \<or> proxy_Type p = ''socks''"
  shows "mapProxyToEntity p =
     Inr \<lparr>ID = proxy_ID p, Host = proxy_Host p, Port = word_of_int n, User = proxy_User p,
          Password = NewSensitive (proxy_Pass p), Type = fst (ParseProxyType (proxy_Type p)),
          Country = proxy_Country p, Date = Unix (proxy_Unixtime p) 0,
          ExpireDate = Unix (proxy_UnixtimeEnd p) 0, Description = proxy_Descr p,
          Active = EqualFold (proxy_Active p) ''1''\<rparr>"
  using assms by (auto simp: mapProxyToEntity_def ParseProxyType_def)

lemma mapProxyToEntity_port_error:
  "Atoi (proxy_Port p) = (n, Some err) \<Longrightarrow>
   mapProxyToEntity p = Inl (WrapError ''parsing port: '' err)"
  by (simp add: mapProxyToEntity_def)

lemma mapProxyToEntity_type_error:
  "Atoi (proxy_Port p) = (n, None) \<Longrightarrow> proxy_Type p \<noteq> ''http'' \<Longrightarrow> proxy_Type p \<noteq> ''socks'' \<Longrightarrow>
   mapProxyToEntity p =
     Inl (WrapError ''parsing proxy type: ''
            (WrapError (''type '' @ proxy_Type p @ '': '') ErrWrongProxyType))"
  by (simp add: mapProxyToEntity_def ParseProxyType_def)

text \<open>
  C10. When \<open>Atoi\<close> accepts the port string with the number \<open>n\<close>, whatever its sign and
  size, and the type is \<open>http\<close> or \<open>socks\<close>, the mapping succeeds and the port of the result
  is \<open>n\<close> modulo \<open>2 ^ 16\<close>: the number is converted without a check of its range.
\<close>

theorem mapProxyToEntity_port_truncated:
  assumes "Atoi (proxy_Port p) = (n, None)"
    and "proxy_Type p = ''http'' \<or> proxy_Type p = ''socks''"
  shows "\<exists>e. mapProxyToEntity p = Inr e \<and> uint (Port e) = n mod 2 ^ 16"
  using mapProxyToEntity_ok [OF assms] by (simp add: uint_word_of_int_eq take_bit_eq_mod)

theorem mapProxyToEntity_port_truncated_witness:
  "Atoi ''-1'' = (- 1, None) \<and>
   (\<exists>e. mapProxyToEntity (exampleProxy ''-1'' ''http'' ''1'') = Inr e \<and> uint (Port e) = 65535) \<and>
   Atoi ''70000'' = (70000, None) \<and>
   (\<exists>e. mapProxyToEntity (exampleProxy ''70000'' ''socks'' ''0'') = Inr e \<and> uint (Port e) = 4464)"
  using mapProxyToEntity_port_truncated [of "exampleProxy ''-1'' ''http'' ''1''" "- 1"]
    mapProxyToEntity_port_truncated [of "exampleProxy ''70000'' ''socks'' ''0''" 70000]
  by (simp add: exampleProxy_def Atoi_examples)

text \<open>
  C1 says that a port which parses to a negative number or to a number above 65535 makes
  the mapping fail. It does not: the port strings \<open>-1\<close> and \<open>65536\<close> are mapped, to the
  ports 65535 and 0.
\<close>

theorem mapProxyToEntity_out_of_range_port_accepted:
  "mapProxyToEntity (exampleProxy ''-1'' ''http'' ''1'') =
     Inr \<lparr>ID = ''1'', Host = ''203.0.113.7'', Port = 65535, User = ''user'',
          Password = NewSensitive ''pass'', Type = ProxyTypeHTTP, Country = ''ru'',
          Date = epoch, ExpireDate = epoch, Description = [], Active = True\<rparr> \<and>
   mapProxyToEntity (exampleProxy ''65536'' ''http'' ''1'') =
     Inr \<lparr>ID = ''1'', Host = ''203.0.113.7'', Port = 0, User = ''user'',
          Password = NewSensitive ''pass'', Type = ProxyTypeHTTP, Country = ''ru'',
          Date = epoch, ExpireDate = epoch, Description = [], Active = True\<rparr>"
  by (simp add: mapProxyToEntity_def exampleProxy_def Atoi_examples ParseProxyType_def
      Unix_def epoch_def EqualFold_one)

text \<open>
  C1, amended. The mapping of a record fails exactly when \<open>Atoi\<close> rejects the port string
  (it is not an optional sign and decimal digits, or the number does not fit \<open>int\<close>) or the
  type string is neither \<open>http\<close> nor \<open>socks\<close>.
\<close>

theorem mapProxyToEntity_fails_iff:
  "(\<exists>err. mapProxyToEntity p = Inl err) \<longleftrightarrow>
     snd (Atoi (proxy_Port p)) \<noteq> None \<or>
     (proxy_Type p \<noteq> ''http'' \<and> proxy_Type p \<noteq> ''socks'')"
proof (cases "Atoi (proxy_Port p)")
  case (Pair n err)
  show ?thesis
  proof (cases err)
    case None
    show ?thesis
    proof (cases "proxy_Type p = ''http'' \<or> proxy_Type p = ''socks''")
      case True
      from mapProxyToEntity_ok [OF Pair [unfolded None] True] show ?thesis
        using Pair None True by auto
    next
      case False
      then show ?thesis
        using mapProxyToEntity_type_error [of p n] Pair None by auto
    qed
  next
    case (Some e)
    then show ?thesis
      using mapProxyToEntity_port_error [of p n e] Pair by auto
  qed
qed

theorem mapProxyToEntity_fails_iff_witness:
  "(\<exists>err. mapProxyToEntity (exampleProxy ''abc'' ''http'' ''1'') = Inl err) \<and>
   (\<exists>err. mapProxyToEntity (exampleProxy ''8080'' ''HTTP'' ''1'') = Inl err) \<and>
   \<not> (\<exists>err. mapProxyToEntity (exampleProxy ''-1'' ''http'' ''1'') = Inl err)"
  using mapProxyToEntity_fails_iff [of "exampleProxy ''abc'' ''http'' ''1''"]
    mapProxyToEntity_fails_iff [of "exampleProxy ''8080'' ''HTTP'' ''1''"]
    mapProxyToEntity_fails_iff [of "exampleProxy ''-1'' ''http'' ''1''"]
  by (simp add: exampleProxy_def Atoi_examples)

text \<open>
  C8. A record with the port \<open>8080\<close>, the type \<open>http\<close>, both times 0 and the active string
  \<open>1\<close> is mapped to a proxy with the port 8080, the HTTP type, the epoch as its date and the
  active flag set. For every record that is mapped, the active flag is what
  \<open>strings.EqualFold\<close> says of the active string and \<open>1\<close>, which holds for the string \<open>1\<close> only.
\<close>

theorem mapProxyToEntity_example:
  "(proxy_Port p = ''8080'' \<and> proxy_Type p = ''http'' \<and> proxy_Unixtime p = 0 \<and>
    proxy_UnixtimeEnd p = 0 \<and> proxy_Active p = ''1'' \<longrightarrow>
      (\<exists>e. mapProxyToEntity p = Inr e \<and> Port e = 8080 \<and> Type e = ProxyTypeHTTP \<and>
           Date e = epoch \<and> ExpireDate e = epoch \<and> Active e)) \<and>
   (mapProxyToEntity p = Inr e' \<longrightarrow>
      Active e' = EqualFold (proxy_Active p) ''1'' \<and> Active e' = (proxy_Active p = ''1''))"
proof (intro conjI impI)
  assume a: "proxy_Port p = ''8080'' \<and> proxy_Type p = ''http'' \<and> proxy_Unixtime p = 0 \<and>
    proxy_UnixtimeEnd p = 0 \<and> proxy_Active p = ''1''"
  then have "Atoi (proxy_Port p) = (8080, None)" "proxy_Type p = ''http'' \<or> proxy_Type p = ''socks''"
    by (simp_all add: Atoi_examples)
  from mapProxyToEntity_ok [OF this] a
  show "\<exists>e. mapProxyToEntity p = Inr e \<and> Port e = 8080 \<and> Type e = ProxyTypeHTTP \<and>
           Date e = epoch \<and> ExpireDate e = epoch \<and> Active e"
    by (simp add: ParseProxyType_def Unix_def epoch_def EqualFold_one)
next
  assume r: "mapProxyToEntity p = Inr e'"
  then show "Active e' = EqualFold (proxy_Active p) ''1''"
    by (auto simp: mapProxyToEntity_def split: prod.splits option.splits)
  with EqualFold_one show "Active e' = (proxy_Active p = ''1'')"
    by simp
qed

theorem mapProxyToEntity_example_witness:
  "(\<exists>e. mapProxyToEntity (exampleProxy ''8080'' ''http'' ''1'') = Inr e \<and> Port e = 8080 \<and>
        Type e = ProxyTypeHTTP \<and> Date e = epoch \<and> ExpireDate e = epoch \<and> Active e) \<and>
   (\<exists>e. mapProxyToEntity (exampleProxy ''8080'' ''http'' ''0'') = Inr e \<and> \<not> Active e)"
proof -
  let ?p = "exampleProxy ''8080'' ''http'' ''1''"
  let ?q = "exampleProxy ''8080'' ''http'' ''0''"
  have "\<exists>e. mapProxyToEntity ?p = Inr e \<and> Port e = 8080 \<and>
        Type e = ProxyTypeHTTP \<and> Date e = epoch \<and> ExpireDate e = epoch \<and> Active e"
    using mapProxyToEntity_example [of ?p] by (simp add: exampleProxy_def)
  moreover obtain e where q: "mapProxyToEntity ?q = Inr e"
    by (simp add: mapProxyToEntity_def exampleProxy_def Atoi_examples ParseProxyType_def)
  from mapProxyToEntity_example [of ?q e] q have "Active e = (proxy_Active ?q = ''1'')"
    by blast
  then have "\<not> Active e"
    by (simp add: exampleProxy_def)
  with q have "\<exists>e. mapProxyToEntity ?q = Inr e \<and> \<not> Active e"
    by blast
  ultimately show ?thesis by blast
qed

subsection \<open>The request\<close>

text \<open>
  C4. When the transport answers with a status code of 400 or more, \<open>doRequest\<close> returns
  the request error that holds the status code and the body as its message. The
  destination comes back as it was passed, whatever the decoder of the library is: the
  body is not decoded.
\<close>

theorem doRequest_status_error:
  assumes "c req = Inr resp" and "StatusCode resp \<ge> 400"
  shows "doRequest lib c req dst = (dst, Some (RequestError (StatusCode resp) (Body resp))) \<and>
         GetCode (snd (doRequest lib c req dst)) = StatusCode resp \<and>
         GetMessage (snd (doRequest lib c req dst)) = Body resp"
  using assms by (simp add: doRequest_def GetCode_def GetMessage_def)

theorem doRequest_status_error_witness:
  "doRequest (exampleLibrary \<lparr>Status = ''yes'', ErrorID = 0, Error = [], ListCount = 0, List = []\<rparr>)
     (\<lambda>req. Inr \<lparr>StatusCode = 404, Body = ''not found''\<rparr>)
     \<lparr>Method = ''GET'', URL = ''https://proxy6.net/api/secret/getproxy'', Query = []\<rparr>
     proxyResponse_zero =
   (proxyResponse_zero, Some (RequestError 404 ''not found''))"
  using doRequest_status_error [of "\<lambda>req. Inr \<lparr>StatusCode = 404, Body = ''not found''\<rparr>"
      "\<lparr>Method = ''GET'', URL = ''https://proxy6.net/api/secret/getproxy'', Query = []\<rparr>"
      "\<lparr>StatusCode = 404, Body = ''not found''\<rparr>"
      "exampleLibrary \<lparr>Status = ''yes'', ErrorID = 0, Error = [], ListCount = 0, List = []\<rparr>"
      proxyResponse_zero]
  by simp

lemma loadAllProxies_decoded:
  assumes "NewRequestWithContext lib ''GET'' (addr c @ ''/api/'' @ key c @ ''/getproxy'') = None"
    and "hclient c \<lparr>Method = ''GET'', URL = addr c @ ''/api/'' @ key c @ ''/getproxy'',
           Query = [(''descr'', desc), (''nokey'', []), (''state'', ProxyState_String state)]\<rparr> = Inr resp"
    and "StatusCode resp < 400"
    and "Unmarshal lib (Body resp) proxyResponse_zero = (envelope, None)"
  shows "loadAllProxies lib c state desc =
     (if isError envelope then (envelope, Some (RequestError (ErrorID envelope) (Error envelope)))
      else (envelope, None))"
  using assms by (simp add: loadAllProxies_def doRequest_def Let_def)

text \<open>
  C3. When the request is made, the transport answers with a status code below 400 and
  the body decodes to an envelope whose status is \<open>no\<close>, whose \<open>error_id\<close> is positive or
  whose error string is not empty, \<open>ListProxies\<close> returns no list and the request error made
  of the \<open>error_id\<close> and the error string of the envelope; \<open>GetCode\<close> of that error is the
  \<open>error_id\<close>.
\<close>

theorem ListProxies_envelope_error:
  assumes "NewRequestWithContext lib ''GET'' (addr c @ ''/api/'' @ key c @ ''/getproxy'') = None"
    and "hclient c \<lparr>Method = ''GET'', URL = addr c @ ''/api/'' @ key c @ ''/getproxy'',
           Query = [(''descr'', Descr params), (''nokey'', []),
                    (''state'', ProxyState_String (State params))]\<rparr> = Inr resp"
    and "StatusCode resp < 400"
    and "Unmarshal lib (Body resp) proxyResponse_zero = (envelope, None)"
    and "Status envelope = ''no'' \<or> ErrorID envelope > 0 \<or> Error envelope \<noteq> []"
  shows "ListProxies lib c params =
           Return (None, Some (RequestError (ErrorID envelope) (Error envelope))) \<and>
         GetCode (Some (RequestError (ErrorID envelope) (Error envelope))) = ErrorID envelope \<and>
         GetMessage (Some (RequestError (ErrorID envelope) (Error envelope))) = Error envelope"
proof -
  have "isError envelope"
    using assms(5) by (simp add: isError_def)
  with loadAllProxies_decoded [OF assms(1-4)]
  have "loadAllProxies lib c (State params) (Descr params) =
          (envelope, Some (RequestError (ErrorID envelope) (Error envelope)))"
    by simp
  then show ?thesis
    by (simp add: ListProxies_def GetCode_def GetMessage_def)
qed

theorem ListProxies_envelope_error_witness:
  "ListProxies
     (exampleLibrary \<lparr>Status = ''no'', ErrorID = 100, Error = ''Error key'', ListCount = 0, List = []\<rparr>)
     (exampleClient \<lparr>StatusCode = 200, Body = ''{}''\<rparr>) exampleParams =
     Return (None, Some (RequestError 100 ''Error key'')) \<and>
   GetCode (Some (RequestError 100 ''Error key'')) = 100"
  using ListProxies_envelope_error
    [of "exampleLibrary \<lparr>Status = ''no'', ErrorID = 100, Error = ''Error key'', ListCount = 0, List = []\<rparr>"
        "exampleClient \<lparr>StatusCode = 200, Body = ''{}''\<rparr>" exampleParams
        "\<lparr>StatusCode = 200, Body = ''{}''\<rparr>"
        "\<lparr>Status = ''no'', ErrorID = 100, Error = ''Error key'', ListCount = 0, List = []\<rparr>"]
  by (simp add: exampleLibrary_def exampleClient_def)

subsection \<open>Mapping the list\<close>

lemma mapProxyResponse_loop_first_error:
  assumes "\<forall>g \<in> set good. \<exists>e. mapProxyToEntity g = Inr e"
    and "mapProxyToEntity bad = Inl err"
  shows "mapProxyResponse_loop (good @ bad # rest) proxies = (None, Some err)"
  using assms
proof (induction good arbitrary: proxies)
  case Nil
  then show ?case by simp
next
  case (Cons g good)
  then obtain e where "mapProxyToEntity g = Inr e"
    by auto
  with Cons show ?case by simp
qed

lemma mapProxyResponse_loop_all_mapped:
  assumes "\<forall>g \<in> set items. \<exists>e. mapProxyToEntity g = Inr e"
  shows "mapProxyResponse_loop items proxies =
           (Some (proxies @ map (\<lambda>g. projr (mapProxyToEntity g)) items), None)"
  using assms
proof (induction items arbitrary: proxies)
  case Nil
  then show ?case by simp
next
  case (Cons g items)
  then obtain e where "mapProxyToEntity g = Inr e"
    by auto
  with Cons show ?case by simp
qed

lemma first_failing_record:
  assumes "item \<in> set items" and "mapProxyToEntity item = Inl e0"
  shows "\<exists>good bad rest err. items = good @ bad # rest \<and>
           (\<forall>g \<in> set good. \<exists>e. mapProxyToEntity g = Inr e) \<and> mapProxyToEntity bad = Inl err"
proof -
  from assms have "\<exists>x \<in> set items. isl (mapProxyToEntity x)"
    by (auto intro: bexI [of _ item])
  from split_list_first_prop [OF this]
  obtain good bad rest where d: "items = good @ bad # rest"
    and b: "isl (mapProxyToEntity bad)" and g: "\<forall>y \<in> set good. \<not> isl (mapProxyToEntity y)"
    by blast
  from b obtain err where "mapProxyToEntity bad = Inl err"
    by (cases "mapProxyToEntity bad") auto
  moreover from g have "\<forall>y \<in> set good. \<exists>e. mapProxyToEntity y = Inr e"
  proof (intro ballI)
    fix y assume "y \<in> set good"
    with g have "\<not> isl (mapProxyToEntity y)" by blast
    then show "\<exists>e. mapProxyToEntity y = Inr e"
      by (cases "mapProxyToEntity y") auto
  qed
  ultimately show ?thesis using d by blast
qed

lemma mapProxyToEntity_bad_port:
  "mapProxyToEntity (exampleProxy ''abc'' ''http'' ''1'') =
     Inl (WrapError ''parsing port: '' (NumError ''Atoi'' ''abc'' ErrSyntax))"
  by (simp add: mapProxyToEntity_def exampleProxy_def Atoi_examples)

text \<open>
  C2 says that for every decoded envelope with a record that fails to map, \<open>ListProxies\<close>
  returns the error of that record. Two envelopes with the record of port \<open>abc\<close> show
  otherwise: with the status \<open>no\<close> the result is the request error of the envelope, and with
  the list count \<open>-1\<close> the call of \<open>make\<close> panics before any record is mapped.
\<close>

theorem ListProxies_bad_record_without_its_error:
  "mapProxyToEntity (exampleProxy ''abc'' ''http'' ''1'') =
     Inl (WrapError ''parsing port: '' (NumError ''Atoi'' ''abc'' ErrSyntax)) \<and>
   ListProxies
     (exampleLibrary (exampleEnvelope ''no'' 1 [exampleProxy ''abc'' ''http'' ''1'']))
     (exampleClient \<lparr>StatusCode = 200, Body = ''{}''\<rparr>) exampleParams =
     Return (None, Some (RequestError 0 [])) \<and>
   ListProxies
     (exampleLibrary (exampleEnvelope ''yes'' (- 1) [exampleProxy ''abc'' ''http'' ''1'']))
     (exampleClient \<lparr>StatusCode = 200, Body = ''{}''\<rparr>) exampleParams =
     Panic ''makeslice: cap out of range''"
  by (simp add: mapProxyToEntity_bad_port ListProxies_def loadAllProxies_def doRequest_def
      mapProxyResponse_def exampleLibrary_def exampleClient_def exampleEnvelope_def
      exampleParams_def isError_def Let_def)

text \<open>
  C2, amended. When the decoded envelope does not signal a failure and its list count is
  a capacity that \<open>make\<close> accepts, and some record of its list fails to map, \<open>ListProxies\<close>
  returns the nil list and the error of the first record that fails: the records before
  it are mapped, and none of them is returned.
\<close>

theorem ListProxies_all_or_nothing:
  assumes "NewRequestWithContext lib ''GET'' (addr c @ ''/api/'' @ key c @ ''/getproxy'') = None"
    and "hclient c \<lparr>Method = ''GET'', URL = addr c @ ''/api/'' @ key c @ ''/getproxy'',
           Query = [(''descr'', Descr params), (''nokey'', []),
                    (''state'', ProxyState_String (State params))]\<rparr> = Inr resp"
    and "StatusCode resp < 400"
    and "Unmarshal lib (Body resp) proxyResponse_zero = (envelope, None)"
    and "\<not> isError envelope"
    and "0 \<le> ListCount envelope" and "ListCount envelope \<le> maxCap lib"
    and "item \<in> set (List envelope)" and "mapProxyToEntity item = Inl e0"
  shows "\<exists>good bad rest err. List envelope = good @ bad # rest \<and>
           (\<forall>g \<in> set good. \<exists>e. mapProxyToEntity g = Inr e) \<and>
           mapProxyToEntity bad = Inl err \<and>
           ListProxies lib c params = Return (None, Some err)"
proof -
  from first_failing_record [OF assms(8,9)]
  obtain good bad rest err where d: "List envelope = good @ bad # rest"
    and g: "\<forall>g \<in> set good. \<exists>e. mapProxyToEntity g = Inr e"
    and b: "mapProxyToEntity bad = Inl err"
    by blast
  have l: "loadAllProxies lib c (State params) (Descr params) = (envelope, None)"
    using loadAllProxies_decoded [OF assms(1-4)] assms(5) by simp
  have "mapProxyResponse (maxCap lib) envelope = Return (None, Some err)"
    using assms(6,7) mapProxyResponse_loop_first_error [OF g b]
    by (simp add: mapProxyResponse_def d)
  with l have "ListProxies lib c params = Return (None, Some err)"
    by (simp add: ListProxies_def)
  with d g b show ?thesis by blast
qed

theorem ListProxies_all_or_nothing_witness:
  "\<exists>good bad rest err.
      [exampleProxy ''8080'' ''http'' ''1'', exampleProxy ''abc'' ''http'' ''1'',
       exampleProxy ''3128'' ''socks'' ''0''] = good @ bad # rest \<and>
      (\<forall>g \<in> set good. \<exists>e. mapProxyToEntity g = Inr e) \<and>
      mapProxyToEntity bad = Inl err \<and>
      ListProxies
        (exampleLibrary (exampleEnvelope ''yes'' 3
           [exampleProxy ''8080'' ''http'' ''1'', exampleProxy ''abc'' ''http'' ''1'',
            exampleProxy ''3128'' ''socks'' ''0'']))
        (exampleClient \<lparr>StatusCode = 200, Body = ''{}''\<rparr>) exampleParams =
      Return (None, Some err)"
  using ListProxies_all_or_nothing
    [of "exampleLibrary (exampleEnvelope ''yes'' 3
           [exampleProxy ''8080'' ''http'' ''1'', exampleProxy ''abc'' ''http'' ''1'',
            exampleProxy ''3128'' ''socks'' ''0''])"
        "exampleClient \<lparr>StatusCode = 200, Body = ''{}''\<rparr>" exampleParams
        "\<lparr>StatusCode = 200, Body = ''{}''\<rparr>"
        "exampleEnvelope ''yes'' 3
           [exampleProxy ''8080'' ''http'' ''1'', exampleProxy ''abc'' ''http'' ''1'',
            exampleProxy ''3128'' ''socks'' ''0'']"
        "exampleProxy ''abc'' ''http'' ''1''"
        "WrapError ''parsing port: '' (NumError ''Atoi'' ''abc'' ErrSyntax)"]
    mapProxyToEntity_bad_port
  by (simp add: exampleLibrary_def exampleClient_def exampleEnvelope_def isError_def)

end
